theory Spec2Isabelle
  imports Complex_Main "HOL-Library.Char_ord" "HOL-Library.Multiset" "HOL-Library.Sublist"
begin

section \<open>Smart recipe filtering: data model\<close>

text \<open>
  The development embeds the recipe scorer of the pregnancy-nutrition application
  (the module that starts with the comment ``Smart Recipe Filtering for Pregnancy Meal
  Recommendations'').  Every definition below follows one declaration of that module.

  Conventions of the embedding.
  \<^item> A JavaScript \<open>number\<close> that carries data (calories, grams, \<open>maxCalories\<close>) is a
    \<^typ>\<open>rat\<close>.  The scorer only compares such numbers with constants and with
    \<open>maxCalories * 1.5\<close>; for the six configured ceilings that product is a whole number,
    and comparison of doubles is exact, so the rational model agrees with the code on
    every finite number.
  \<^item> A macro field that is absent at run time (\<open>undefined\<close>, \<open>null\<close>) or is \<open>NaN\<close> is
    \<open>None\<close>: \<open>x || 0\<close> turns all of them into 0 and \<open>x > 15\<close> is false for all of them.
  \<^item> The score is a sum of whole constants, an \<^typ>\<open>int\<close>; so is the meal number, which
    the \<open>switch\<close> only compares with 1 to 5.
  \<^item> \<open>excludeIds\<close>, a \<open>Set<string>\<close> that is only asked \<open>has\<close>, is a set of strings.
  \<^item> A string is a \<^typ>\<open>string\<close>; \<open>toLowerCase\<close> maps the letters A to Z to a to z
    and leaves every other character as it is (the ASCII part of the JavaScript
    function).
\<close>

datatype EatingContext =
    first_thing
  | morning_fuel
  | midday_sustain
  | quick_bite
  | substantial
  | wind_down

datatype MealPurpose =
    nausea_relief
  | energy
  | nutrient_dense
  | hydrating

record ContextConfig =
  label :: string
  description :: string
  keywords_cfg :: "string list"
  maxCalories :: rat
  priorityPurposes :: "MealPurpose list"

record Macros =
  calories :: "rat option"
  protein :: "rat option"
  carbs :: "rat option"
  fat :: "rat option"

text \<open>The field \<open>id\<close> of the interface \<open>Recipe\<close> is \<open>recipe_id\<close> here, and its optional
  \<open>description\<close> is \<open>recipe_description\<close>: the plain names are taken.  The field
  \<open>keywords\<close> of a configuration entry is \<open>keywords_cfg\<close> for the same reason.\<close>

record Recipe =
  recipe_id :: string
  title :: string
  image_url :: string
  macros :: Macros
  pregnancy_tags :: "string list"
  recipe_description :: "string option"
  ingredients :: "string list option"

section \<open>Strings\<close>

definition toLowerChar :: "char \<Rightarrow> char" where
  "toLowerChar c =
     (if CHR ''A'' \<le> c \<and> c \<le> CHR ''Z'' then char_of (of_char c + (32::nat)) else c)"

definition toLowerCase :: "string \<Rightarrow> string" where
  "toLowerCase s = map toLowerChar s"

fun startsWith :: "string \<Rightarrow> string \<Rightarrow> bool" where
  "startsWith s [] = True"
| "startsWith [] (k # ks) = False"
| "startsWith (c # cs) (k # ks) = (c = k \<and> startsWith cs ks)"

text \<open>\<open>s.includes(k)\<close>: \<open>k\<close> occurs in \<open>s\<close> as a run of consecutive characters.\<close>

fun str_includes :: "string \<Rightarrow> string \<Rightarrow> bool" where
  "str_includes [] k = (k = [])"
| "str_includes (c # cs) k = (startsWith (c # cs) k \<or> str_includes cs k)"

text \<open>\<open>xs.some(p)\<close>.\<close>

fun some :: "('a \<Rightarrow> bool) \<Rightarrow> 'a list \<Rightarrow> bool" where
  "some p [] = False"
| "some p (x # xs) = (p x \<or> some p xs)"

section \<open>The configuration table and the context of a meal\<close>

fun EATING_CONTEXT_CONFIG :: "EatingContext \<Rightarrow> ContextConfig" where
  "EATING_CONTEXT_CONFIG first_thing =
     \<lparr> label = ''First Thing'',
       description = ''Light & gentle on the stomach'',
       keywords_cfg = [''crackers'', ''toast'', ''ginger'', ''tea'', ''dry'', ''bland'', ''light''],
       maxCalories = 200,
       priorityPurposes = [nausea_relief] \<rparr>"
| "EATING_CONTEXT_CONFIG morning_fuel =
     \<lparr> label = ''Morning Fuel'',
       description = ''Energy to start your day'',
       keywords_cfg = [''oatmeal'', ''smoothie'', ''yogurt'', ''fruit'', ''granola'', ''banana'',
                   ''overnight''],
       maxCalories = 400,
       priorityPurposes = [energy, nutrient_dense] \<rparr>"
| "EATING_CONTEXT_CONFIG midday_sustain =
     \<lparr> label = ''Midday Sustain'',
       description = ''Balanced nutrition'',
       keywords_cfg = [''salad'', ''bowl'', ''wrap'', ''sandwich'', ''quinoa'', ''lunch'', ''soup''],
       maxCalories = 500,
       priorityPurposes = [nutrient_dense, energy] \<rparr>"
| "EATING_CONTEXT_CONFIG quick_bite =
     \<lparr> label = ''Quick Bite'',
       description = ''Easy grab-and-go'',
       keywords_cfg = [''bites'', ''snack'', ''nuts'', ''hummus'', ''energy'', ''small'', ''mini'',
                   ''crackers''],
       maxCalories = 250,
       priorityPurposes = [energy] \<rparr>"
| "EATING_CONTEXT_CONFIG substantial =
     \<lparr> label = ''Substantial Meal'',
       description = ''Protein-rich nourishment'',
       keywords_cfg = [''chicken'', ''salmon'', ''fish'', ''beef'', ''steak'', ''dinner'', ''pasta'',
                   ''stir-fry'', ''curry''],
       maxCalories = 600,
       priorityPurposes = [nutrient_dense] \<rparr>"
| "EATING_CONTEXT_CONFIG wind_down =
     \<lparr> label = ''Wind Down'',
       description = ''Calm & calcium-rich'',
       keywords_cfg = [''milk'', ''warm'', ''cheese'', ''cottage'', ''yogurt'', ''light'', ''evening''],
       maxCalories = 300,
       priorityPurposes = [hydrating] \<rparr>"

text \<open>The \<open>switch\<close> on the meal number, its \<open>default\<close> arm last.\<close>

definition getContextForMealNumber :: "int \<Rightarrow> EatingContext" where
  "getContextForMealNumber mealNumber =
     (if mealNumber = 1 then first_thing
      else if mealNumber = 2 then morning_fuel
      else if mealNumber = 3 then midday_sustain
      else if mealNumber = 4 then quick_bite
      else if mealNumber = 5 then substantial
      else wind_down)"

section \<open>Purposes of a recipe\<close>

text \<open>The array \<open>purposes\<close> grows by \<open>push\<close>, in the order of the four tests; an empty
  array is replaced by \<open>["energy"]\<close>.\<close>

definition detectPurpose :: "Recipe \<Rightarrow> MealPurpose list" where
  "detectPurpose recipe =
     (let tags = map toLowerCase (pregnancy_tags recipe);
          title = toLowerCase (title recipe);
          purposes =
            (if some (\<lambda>t. str_includes t ''nausea'') tags \<or> str_includes title ''ginger''
                \<or> str_includes title ''bland''
             then [nausea_relief] else [])
            @ (if some (\<lambda>t. str_includes t ''energy'' \<or> str_includes t ''protein'') tags
               then [energy] else [])
            @ (if some (\<lambda>t. str_includes t ''iron'' \<or> str_includes t ''folic''
                              \<or> str_includes t ''calcium'') tags
               then [nutrient_dense] else [])
            @ (if some (\<lambda>t. str_includes t ''hydrat'') tags \<or> str_includes title ''soup''
                  \<or> str_includes title ''smoothie''
               then [hydrating] else [])
      in if length purposes > 0 then purposes else [energy])"

section \<open>Scoring\<close>

text \<open>The body of \<open>scoreRecipeForContext\<close>, statement by statement: each \<open>for\<close> loop is
  a \<open>fold\<close> over the array it walks, with the running \<open>score\<close> as its state.\<close>

definition scoreRecipeForContext :: "Recipe \<Rightarrow> EatingContext \<Rightarrow> int" where
  "scoreRecipeForContext recipe context =
     (let config = EATING_CONTEXT_CONFIG context;
          score0 = 0;
          titleLower = toLowerCase (title recipe);
          score1 = fold (\<lambda>keyword score.
                      if str_includes titleLower keyword then score + 15 else score)
                    (keywords_cfg config) score0;
          score2 = fold (\<lambda>tag score.
                      let tagLower = toLowerCase tag
                      in fold (\<lambda>keyword score.
                            if str_includes tagLower keyword then score + 10 else score)
                          (keywords_cfg config) score)
                    (pregnancy_tags recipe) score1;
          calories = (case calories (macros recipe) of None \<Rightarrow> 0 | Some c \<Rightarrow> c);
          score3 = (if calories \<le> maxCalories config then score2 + 10
                    else if calories > maxCalories config * 1.5 then score2 - 15
                    else score2);
          purposes = detectPurpose recipe;
          score4 = fold (\<lambda>purpose score.
                      if purpose \<in> set purposes then score + 20 else score)
                    (priorityPurposes config) score3;
          score5 = (if context = first_thing then
                      (let s = (if str_includes titleLower ''ginger''
                                   \<or> str_includes titleLower ''cracker''
                                then score4 + 30 else score4)
                       in if (case fat (macros recipe) of None \<Rightarrow> False | Some f \<Rightarrow> f > 15)
                             \<or> calories > 300
                          then s - 25 else s)
                    else score4);
          score6 = (if context = wind_down then
                      (if str_includes titleLower ''milk'' \<or> str_includes titleLower ''yogurt''
                          \<or> str_includes titleLower ''cheese''
                       then score5 + 20 else score5)
                    else score5)
      in score6)"

section \<open>Ranking\<close>

text \<open>\<open>Array.prototype.sort\<close> with a comparator: \<open>a\<close> goes before \<open>b\<close> when
  \<open>cmp a b\<close> is negative, after it when positive, and elements that compare equal keep
  their order (the sort is stable).  Insertion from the right end does exactly that.\<close>

fun insertBy :: "('a \<Rightarrow> 'a \<Rightarrow> int) \<Rightarrow> 'a \<Rightarrow> 'a list \<Rightarrow> 'a list" where
  "insertBy cmp x [] = [x]"
| "insertBy cmp x (y # ys) = (if cmp x y \<le> 0 then x # y # ys else y # insertBy cmp x ys)"

definition sortBy :: "('a \<Rightarrow> 'a \<Rightarrow> int) \<Rightarrow> 'a list \<Rightarrow> 'a list" where
  "sortBy cmp xs = foldr (insertBy cmp) xs []"

definition getSmartRecipesForMeal :: "Recipe list \<Rightarrow> int \<Rightarrow> string set \<Rightarrow> Recipe list" where
  "getSmartRecipesForMeal recipes mealNumber excludeIds =
     (let context = getContextForMealNumber mealNumber;
          available = filter (\<lambda>r. recipe_id r \<notin> excludeIds) recipes;
          scored = map (\<lambda>recipe. (recipe, scoreRecipeForContext recipe context)) available;
          sorted_scored = sortBy (\<lambda>a b. snd b - snd a) scored
      in map fst sorted_scored)"

section \<open>The score as the specification words it\<close>

text \<open>The five contributions of the score as the specification lists them, each a
  definition of its own; \<open>scoreRecipeForContext_sum\<close> below compares their sum with the
  function the code defines.\<close>

definition caloriesOrZero :: "Recipe \<Rightarrow> rat" where
  "caloriesOrZero r = (case calories (macros r) of None \<Rightarrow> 0 | Some x \<Rightarrow> x)"

definition titleKeywordPoints :: "Recipe \<Rightarrow> EatingContext \<Rightarrow> int" where
  "titleKeywordPoints r c =
     15 * int (length (filter (\<lambda>k. str_includes (toLowerCase (title r)) k)
                         (keywords_cfg (EATING_CONTEXT_CONFIG c))))"

definition tagKeywordPoints :: "Recipe \<Rightarrow> EatingContext \<Rightarrow> int" where
  "tagKeywordPoints r c =
     10 * int (length (filter (\<lambda>(t, k). str_includes (toLowerCase t) (toLowerCase k))
                         (List.product (pregnancy_tags r)
                            (keywords_cfg (EATING_CONTEXT_CONFIG c)))))"

definition calorieFitPoints :: "Recipe \<Rightarrow> EatingContext \<Rightarrow> int" where
  "calorieFitPoints r c =
     (if caloriesOrZero r \<le> maxCalories (EATING_CONTEXT_CONFIG c) then 10
      else if caloriesOrZero r > maxCalories (EATING_CONTEXT_CONFIG c) * 1.5 then - 15
      else 0)"

definition purposePoints :: "Recipe \<Rightarrow> EatingContext \<Rightarrow> int" where
  "purposePoints r c =
     20 * int (card (set (priorityPurposes (EATING_CONTEXT_CONFIG c)) \<inter> set (detectPurpose r)))"

definition overridePoints :: "Recipe \<Rightarrow> EatingContext \<Rightarrow> int" where
  "overridePoints r c =
     (if c = first_thing then
        (if str_includes (toLowerCase (title r)) ''ginger''
            \<or> str_includes (toLowerCase (title r)) ''cracker'' then 30 else 0)
        + (if (case fat (macros r) of None \<Rightarrow> False | Some f \<Rightarrow> f > 15)
              \<or> caloriesOrZero r > 300 then - 25 else 0)
      else if c = wind_down then
        (if str_includes (toLowerCase (title r)) ''milk''
            \<or> str_includes (toLowerCase (title r)) ''yogurt''
            \<or> str_includes (toLowerCase (title r)) ''cheese'' then 20 else 0)
      else 0)"

text \<open>The four detection rules as the specification words them.\<close>

definition nauseaRule :: "Recipe \<Rightarrow> bool" where
  "nauseaRule r \<longleftrightarrow>
     (\<exists>t \<in> set (pregnancy_tags r). str_includes (toLowerCase t) ''nausea'')
     \<or> str_includes (toLowerCase (title r)) ''ginger''
     \<or> str_includes (toLowerCase (title r)) ''bland''"

definition energyRule :: "Recipe \<Rightarrow> bool" where
  "energyRule r \<longleftrightarrow>
     (\<exists>t \<in> set (pregnancy_tags r).
        str_includes (toLowerCase t) ''energy'' \<or> str_includes (toLowerCase t) ''protein'')"

definition nutrientRule :: "Recipe \<Rightarrow> bool" where
  "nutrientRule r \<longleftrightarrow>
     (\<exists>t \<in> set (pregnancy_tags r).
        str_includes (toLowerCase t) ''iron'' \<or> str_includes (toLowerCase t) ''folic''
        \<or> str_includes (toLowerCase t) ''calcium'')"

definition hydratingRule :: "Recipe \<Rightarrow> bool" where
  "hydratingRule r \<longleftrightarrow>
     (\<exists>t \<in> set (pregnancy_tags r). str_includes (toLowerCase t) ''hydrat'')
     \<or> str_includes (toLowerCase (title r)) ''soup''
     \<or> str_includes (toLowerCase (title r)) ''smoothie''"

section \<open>Library facts about the loops, the strings and the sort\<close>

lemma fold_add_if:
  "fold (\<lambda>k (s::int). if P k then s + c else s) ks s0 = s0 + c * int (length (filter P ks))"
  by (induction ks arbitrary: s0) (simp_all add: algebra_simps)

lemma length_filter_product:
  "length (filter (\<lambda>(t, k). Q t k) (List.product ts ks))
     = (\<Sum>t\<leftarrow>ts. length (filter (Q t) ks))"
  by (induction ts) (simp_all add: filter_map comp_def)

lemma fold_add_each:
  "fold (\<lambda>t (s::int). s + c * int (g t)) ts s0 = s0 + c * int (\<Sum>t\<leftarrow>ts. g t)"
  by (induction ts arbitrary: s0) (simp_all add: algebra_simps)

lemma fold_fold_add_if:
  "fold (\<lambda>t (s::int). fold (\<lambda>k s. if Q t k then s + c else s) ks s) ts s0
     = s0 + c * int (length (filter (\<lambda>(t, k). Q t k) (List.product ts ks)))"
  by (simp only: fold_add_if fold_add_each length_filter_product)

text \<open>\<open>startsWith\<close> and \<open>str_includes\<close> are the prefix and the contiguous-sublist
  relations of the list library.\<close>

lemma startsWith_iff: "startsWith s k \<longleftrightarrow> prefix k s"
  by (induction s k rule: startsWith.induct) auto

lemma str_includes_iff: "str_includes s k \<longleftrightarrow> sublist k s"
  by (induction s) (auto simp: startsWith_iff sublist_Cons_right)

lemma some_iff: "some p xs \<longleftrightarrow> (\<exists>x\<in>set xs. p x)"
  by (induction xs) auto

text \<open>With the comparator \<open>b.score - a.score\<close> the sort is the library's stable
  insertion sort on the negated score.\<close>

lemma insertBy_insort_key:
  "insertBy (\<lambda>a b. f b - f a) x ys = insort_key (\<lambda>a. - f a) x ys"
  by (induction ys) auto

lemma sortBy_sort_key: "sortBy (\<lambda>a b. f b - f a) xs = sort_key (\<lambda>a. - f a) xs"
  by (simp add: sortBy_def sort_key_def insertBy_insort_key[abs_def])

lemma insort_key_map:
  "insort_key f (g x) (map g ys) = map g (insort_key (\<lambda>a. f (g a)) x ys)"
  by (induction ys) auto

lemma sort_key_map: "sort_key f (map g xs) = map g (sort_key (\<lambda>a. f (g a)) xs)"
  by (induction xs) (simp_all add: insort_key_map)

section \<open>The score is the sum of its five contributions\<close>

text \<open>Every configured keyword is already in lower case, so lower-casing it (as the
  specification does) changes nothing; and no context lists a priority purpose twice.\<close>

lemma keywords_lower:
  "k \<in> set (keywords_cfg (EATING_CONTEXT_CONFIG c)) \<Longrightarrow> toLowerCase k = k"
  by (cases c) (auto simp: toLowerCase_def toLowerChar_def)

lemma priorityPurposes_distinct: "distinct (priorityPurposes (EATING_CONTEXT_CONFIG c))"
  by (cases c) simp_all

lemma length_filter_mem_card:
  assumes "distinct ps"
  shows "length (filter (\<lambda>p. p \<in> A) ps) = card (set ps \<inter> A)"
proof -
  have "length (filter (\<lambda>p. p \<in> A) ps) = card (set (filter (\<lambda>p. p \<in> A) ps))"
    by (rule distinct_card[symmetric]) (simp add: assms)
  also have "set (filter (\<lambda>p. p \<in> A) ps) = set ps \<inter> A"
    by auto
  finally show ?thesis .
qed

lemma tag_pairs_lower:
  "filter (\<lambda>(t, k). str_includes (toLowerCase t) k)
      (List.product ts (keywords_cfg (EATING_CONTEXT_CONFIG c)))
   = filter (\<lambda>(t, k). str_includes (toLowerCase t) (toLowerCase k))
      (List.product ts (keywords_cfg (EATING_CONTEXT_CONFIG c)))"
  by (rule filter_cong) (auto simp: keywords_lower)

text \<open>The refinement: the loops of the code add up to the five contributions.\<close>

lemma scoreRecipeForContext_sum:
  "scoreRecipeForContext r c =
     titleKeywordPoints r c + tagKeywordPoints r c + calorieFitPoints r c
     + purposePoints r c + overridePoints r c"
proof -
  define cfg where "cfg = EATING_CONTEXT_CONFIG c"
  have "scoreRecipeForContext r c =
     15 * int (length (filter (\<lambda>k. str_includes (toLowerCase (title r)) k)
                         (keywords_cfg cfg)))
     + 10 * int (length (filter (\<lambda>(t, k). str_includes (toLowerCase t) k)
                         (List.product (pregnancy_tags r) (keywords_cfg cfg))))
     + calorieFitPoints r c
     + 20 * int (length (filter (\<lambda>p. p \<in> set (detectPurpose r)) (priorityPurposes cfg)))
     + overridePoints r c"
    unfolding scoreRecipeForContext_def Let_def fold_add_if fold_add_each
      calorieFitPoints_def overridePoints_def caloriesOrZero_def cfg_def[symmetric]
    by (simp add: length_filter_product)
  then show ?thesis
    unfolding cfg_def
    by (simp only: titleKeywordPoints_def tagKeywordPoints_def purposePoints_def
        tag_pairs_lower length_filter_mem_card[OF priorityPurposes_distinct])
qed

text \<open>Unfolding rules that evaluate the contributions on a concrete recipe, and the
  lower-cased forms of the strings of the two scenarios.\<close>

lemmas points_eval =
  toLowerCase_def toLowerChar_def char_of_eq_iff detectPurpose_def caloriesOrZero_def
  titleKeywordPoints_def tagKeywordPoints_def calorieFitPoints_def purposePoints_def
  overridePoints_def

lemma toLowerCase_examples:
  "toLowerCase ''Ginger Tea'' = ''ginger tea''"
  "toLowerCase ''Nausea Relief'' = ''nausea relief''"
  "toLowerCase ''Grilled Salmon Steak'' = ''grilled salmon steak''"
  "toLowerCase ''Omega-3'' = ''omega-3''"
  by (simp_all add: toLowerCase_def toLowerChar_def char_of_eq_iff)

section \<open>The context of a meal number\<close>

text \<open>
  Claim C2.  For every integer meal number, \<open>getContextForMealNumber\<close> returns one of the
  six eating contexts: 1, 2, 3, 4, 5 give \<open>first_thing\<close>, \<open>morning_fuel\<close>,
  \<open>midday_sustain\<close>, \<open>quick_bite\<close>, \<open>substantial\<close>, and every other integer (0, the
  negative ones, 6 and above) gives \<open>wind_down\<close>.  The function has no failing branch.
\<close>

theorem getContextForMealNumber_total:
  "getContextForMealNumber 1 = first_thing
   \<and> getContextForMealNumber 2 = morning_fuel
   \<and> getContextForMealNumber 3 = midday_sustain
   \<and> getContextForMealNumber 4 = quick_bite
   \<and> getContextForMealNumber 5 = substantial
   \<and> (\<forall>n. n < 1 \<or> 5 < n \<longrightarrow> getContextForMealNumber n = wind_down)
   \<and> (\<forall>n. getContextForMealNumber n \<in>
          {first_thing, morning_fuel, midday_sustain, quick_bite, substantial, wind_down})"
  by (auto simp: getContextForMealNumber_def)

theorem getContextForMealNumber_total_witness:
  "getContextForMealNumber 0 = wind_down
   \<and> getContextForMealNumber (- 5) = wind_down
   \<and> getContextForMealNumber 9 = wind_down
   \<and> getContextForMealNumber 3 = midday_sustain"
  using getContextForMealNumber_total by simp

section \<open>The purposes of a recipe\<close>

text \<open>The array that \<open>detectPurpose\<close> returns, read as a set, in terms of the four
  rules.\<close>

lemma some_map: "some p (map f xs) \<longleftrightarrow> (\<exists>x\<in>set xs. p (f x))"
  by (simp add: some_iff)

lemma detectPurpose_set:
  "set (detectPurpose r) =
     (if nauseaRule r \<or> energyRule r \<or> nutrientRule r \<or> hydratingRule r
      then (if nauseaRule r then {nausea_relief} else {})
           \<union> (if energyRule r then {energy} else {})
           \<union> (if nutrientRule r then {nutrient_dense} else {})
           \<union> (if hydratingRule r then {hydrating} else {})
      else {energy})"
  unfolding detectPurpose_def Let_def some_map nauseaRule_def[symmetric]
    energyRule_def[symmetric] nutrientRule_def[symmetric] hydratingRule_def[symmetric]
  by auto

lemma detectPurpose_fallback:
  "\<not> nauseaRule r \<Longrightarrow> \<not> energyRule r \<Longrightarrow> \<not> nutrientRule r \<Longrightarrow> \<not> hydratingRule r
   \<Longrightarrow> detectPurpose r = [energy]"
  unfolding detectPurpose_def Let_def some_map nauseaRule_def[symmetric]
    energyRule_def[symmetric] nutrientRule_def[symmetric] hydratingRule_def[symmetric]
  by simp

text \<open>
  Claim C3 (as amended).  For every recipe, \<open>detectPurpose\<close> returns a non-empty set of
  purposes.  \<open>nausea_relief\<close> is in it iff some tag contains \<open>nausea\<close> or the title
  contains \<open>ginger\<close> or \<open>bland\<close>; \<open>nutrient_dense\<close> iff some tag contains \<open>iron\<close>,
  \<open>folic\<close> or \<open>calcium\<close>; \<open>hydrating\<close> iff some tag contains \<open>hydrat\<close> or the title
  contains \<open>soup\<close> or \<open>smoothie\<close> (tags and title in lower case).  \<open>energy\<close> is in it
  iff some tag contains \<open>energy\<close> or \<open>protein\<close>, or none of the other three rules
  matches: when no rule matches at all, the result is exactly \<open>[energy]\<close>.
\<close>

theorem detectPurpose_rules:
  "set (detectPurpose r) \<noteq> {}
   \<and> (nausea_relief \<in> set (detectPurpose r) \<longleftrightarrow> nauseaRule r)
   \<and> (energy \<in> set (detectPurpose r) \<longleftrightarrow>
        energyRule r \<or> (\<not> nauseaRule r \<and> \<not> nutrientRule r \<and> \<not> hydratingRule r))
   \<and> (nutrient_dense \<in> set (detectPurpose r) \<longleftrightarrow> nutrientRule r)
   \<and> (hydrating \<in> set (detectPurpose r) \<longleftrightarrow> hydratingRule r)
   \<and> (\<not> nauseaRule r \<and> \<not> energyRule r \<and> \<not> nutrientRule r \<and> \<not> hydratingRule r
        \<longrightarrow> detectPurpose r = [energy])"
  using detectPurpose_fallback[of r] by (auto simp: detectPurpose_set split: if_splits)

text \<open>A recipe that matches no rule, and one that matches all four.\<close>

theorem detectPurpose_rules_witness:
  "(let R = \<lparr> recipe_id = ''r5'', title = ''Steamed Rice'', image_url = '''',
         macros = \<lparr> calories = Some 200, protein = Some 4, carbs = Some 44, fat = Some 0 \<rparr>,
         pregnancy_tags = [''Fiber''], recipe_description = None, ingredients = None \<rparr>;
        S = \<lparr> recipe_id = ''r6'', title = ''Ginger Carrot Soup'', image_url = '''',
         macros = \<lparr> calories = Some 180, protein = Some 4, carbs = Some 20, fat = Some 5 \<rparr>,
         pregnancy_tags = [''Folic Acid'', ''Protein''], recipe_description = None,
         ingredients = None \<rparr>
    in \<not> nauseaRule R \<and> \<not> energyRule R \<and> \<not> nutrientRule R \<and> \<not> hydratingRule R
     \<and> detectPurpose R = [energy]
     \<and> nauseaRule S \<and> energyRule S \<and> nutrientRule S \<and> hydratingRule S
     \<and> set (detectPurpose S) = {nausea_relief, energy, nutrient_dense, hydrating})"
proof -
  let ?R = "\<lparr> recipe_id = ''r5'', title = ''Steamed Rice'', image_url = '''',
         macros = \<lparr> calories = Some 200, protein = Some 4, carbs = Some 44, fat = Some 0 \<rparr>,
         pregnancy_tags = [''Fiber''], recipe_description = None, ingredients = None \<rparr>"
  let ?S = "\<lparr> recipe_id = ''r6'', title = ''Ginger Carrot Soup'', image_url = '''',
         macros = \<lparr> calories = Some 180, protein = Some 4, carbs = Some 20, fat = Some 5 \<rparr>,
         pregnancy_tags = [''Folic Acid'', ''Protein''], recipe_description = None,
         ingredients = None \<rparr>"
  have rules:
    "\<not> nauseaRule ?R" "\<not> energyRule ?R" "\<not> nutrientRule ?R" "\<not> hydratingRule ?R"
    "nauseaRule ?S" "energyRule ?S" "nutrientRule ?S" "hydratingRule ?S"
    by (simp_all add: nauseaRule_def energyRule_def nutrientRule_def hydratingRule_def
        toLowerCase_def toLowerChar_def char_of_eq_iff)
  have "set (detectPurpose ?S) = {nausea_relief, energy, nutrient_dense, hydrating}"
    using detectPurpose_rules[of ?S] rules
    by (auto intro: MealPurpose.exhaust)
  moreover have "detectPurpose ?R = [energy]"
    using detectPurpose_rules[of ?R] rules by simp
  ultimately show ?thesis
    using rules by (simp only: Let_def simp_thms)
qed

text \<open>
  Claim C3 as it was stated says that \<open>energy\<close> is included iff some tag contains
  \<open>energy\<close> or \<open>protein\<close>.  The fallback contradicts it: the recipe \<open>Steamed Rice\<close> with
  the single tag \<open>Fiber\<close> matches no rule, no tag of it contains \<open>energy\<close> or
  \<open>protein\<close>, and \<open>energy\<close> is in the result.
\<close>

theorem detectPurpose_energy_counterexample:
  "energy \<in> set (detectPurpose
       \<lparr> recipe_id = ''r5'', title = ''Steamed Rice'', image_url = '''',
         macros = \<lparr> calories = Some 200, protein = Some 4, carbs = Some 44, fat = Some 0 \<rparr>,
         pregnancy_tags = [''Fiber''], recipe_description = None, ingredients = None \<rparr>)
   \<and> \<not> energyRule
       \<lparr> recipe_id = ''r5'', title = ''Steamed Rice'', image_url = '''',
         macros = \<lparr> calories = Some 200, protein = Some 4, carbs = Some 44, fat = Some 0 \<rparr>,
         pregnancy_tags = [''Fiber''], recipe_description = None, ingredients = None \<rparr>"
  by (simp add: detectPurpose_def energyRule_def toLowerCase_def toLowerChar_def char_of_eq_iff)

section \<open>Ranking the pool for a meal\<close>

text \<open>The result of \<open>getSmartRecipesForMeal\<close> is the stable sort of the recipes that are
  not excluded, by the negated score against the context of the meal.\<close>

lemma getSmartRecipesForMeal_sort_key:
  "getSmartRecipesForMeal P n E =
     sort_key (\<lambda>r. - scoreRecipeForContext r (getContextForMealNumber n))
       (filter (\<lambda>r. recipe_id r \<notin> E) P)"
proof -
  have "sortBy (\<lambda>a b. snd b - snd a) xs = sort_key (\<lambda>a. - snd a) xs"
    for xs :: "(Recipe \<times> int) list"
    by (rule sortBy_sort_key)
  then show ?thesis
    by (simp add: getSmartRecipesForMeal_def sort_key_map comp_def)
qed

text \<open>
  Claim C4.  For every pool \<open>P\<close>, meal number \<open>n\<close> and set \<open>E\<close> of excluded ids, the
  result of \<open>getSmartRecipesForMeal P n E\<close> holds exactly the recipes of \<open>P\<close> whose id is
  not in \<open>E\<close>, every entry of the pool once (the result is a permutation of the
  filtered pool, and has no repetition when the pool has none); it is sorted by
  descending score against the context of meal \<open>n\<close>; and recipes of equal score keep
  the order they have in \<open>P\<close>.
\<close>

theorem getSmartRecipesForMeal_ranked:
  "mset (getSmartRecipesForMeal P n E) = mset (filter (\<lambda>r. recipe_id r \<notin> E) P)
   \<and> set (getSmartRecipesForMeal P n E) = {r \<in> set P. recipe_id r \<notin> E}
   \<and> (distinct P \<longrightarrow> distinct (getSmartRecipesForMeal P n E))
   \<and> sorted_wrt (\<lambda>a b. scoreRecipeForContext a (getContextForMealNumber n)
                        \<ge> scoreRecipeForContext b (getContextForMealNumber n))
        (getSmartRecipesForMeal P n E)
   \<and> (\<forall>s. filter (\<lambda>r. scoreRecipeForContext r (getContextForMealNumber n) = s)
              (getSmartRecipesForMeal P n E)
          = filter (\<lambda>r. scoreRecipeForContext r (getContextForMealNumber n) = s)
              (filter (\<lambda>r. recipe_id r \<notin> E) P))"
proof -
  let ?key = "\<lambda>r. - scoreRecipeForContext r (getContextForMealNumber n)"
  let ?avail = "filter (\<lambda>r. recipe_id r \<notin> E) P"
  let ?out = "getSmartRecipesForMeal P n E"
  have out: "?out = sort_key ?key ?avail"
    by (rule getSmartRecipesForMeal_sort_key)
  have perm: "mset ?out = mset ?avail"
    by (simp add: out)
  have elems: "set ?out = {r \<in> set P. recipe_id r \<notin> E}"
    by (simp add: out)
  have dist: "distinct P \<longrightarrow> distinct ?out"
    by (simp add: out)
  have "sorted (map ?key ?out)"
    unfolding out by (rule sorted_sort_key)
  then have desc: "sorted_wrt (\<lambda>a b. scoreRecipeForContext a (getContextForMealNumber n)
                        \<ge> scoreRecipeForContext b (getContextForMealNumber n)) ?out"
    by (simp add: sorted_map)
  have stable: "filter (\<lambda>r. scoreRecipeForContext r (getContextForMealNumber n) = s) ?out
      = filter (\<lambda>r. scoreRecipeForContext r (getContextForMealNumber n) = s) ?avail" for s
  proof -
    have "filter (\<lambda>r. ?key r = - s) ?out = filter (\<lambda>r. ?key r = - s) ?avail"
      unfolding out by (rule sort_key_stable)
    then show ?thesis by simp
  qed
  from perm elems dist desc stable show ?thesis by blast
qed

text \<open>A pool in which \<open>A\<close> and \<open>B\<close> tie at 40, \<open>C\<close> scores 90 and \<open>D\<close> is excluded:
  the result is \<open>C\<close>, \<open>A\<close>, \<open>B\<close>.  The empty pool gives the empty result.\<close>

theorem getSmartRecipesForMeal_ranked_witness:
  "(let A = \<lparr> recipe_id = ''a'', title = ''Dry Toast'', image_url = '''',
               macros = \<lparr> calories = Some 100, protein = Some 3, carbs = Some 18, fat = Some 1 \<rparr>,
               pregnancy_tags = [], recipe_description = None, ingredients = None \<rparr>;
        B = \<lparr> recipe_id = ''b'', title = ''Light Toast'', image_url = '''',
               macros = \<lparr> calories = Some 90, protein = Some 3, carbs = Some 16, fat = Some 1 \<rparr>,
               pregnancy_tags = [], recipe_description = None, ingredients = None \<rparr>;
        C = \<lparr> recipe_id = ''c'', title = ''Ginger Tea'', image_url = '''',
               macros = \<lparr> calories = Some 50, protein = Some 1, carbs = Some 10, fat = Some 0 \<rparr>,
               pregnancy_tags = [''Nausea Relief''], recipe_description = None,
               ingredients = None \<rparr>;
        D = \<lparr> recipe_id = ''d'', title = ''Ginger Crackers'', image_url = '''',
               macros = \<lparr> calories = Some 120, protein = Some 2, carbs = Some 20, fat = Some 3 \<rparr>,
               pregnancy_tags = [], recipe_description = None, ingredients = None \<rparr>
    in scoreRecipeForContext A first_thing = 40
     \<and> scoreRecipeForContext B first_thing = 40
     \<and> scoreRecipeForContext C first_thing = 90
     \<and> getSmartRecipesForMeal [A, B, D, C] 1 {''d''} = [C, A, B]
     \<and> distinct (getSmartRecipesForMeal [A, B, D, C] 1 {''d''})
     \<and> getSmartRecipesForMeal [] 1 {} = [])"
proof -
  let ?A = "\<lparr> recipe_id = ''a'', title = ''Dry Toast'', image_url = '''',
               macros = \<lparr> calories = Some 100, protein = Some 3, carbs = Some 18, fat = Some 1 \<rparr>,
               pregnancy_tags = [], recipe_description = None, ingredients = None \<rparr>"
  let ?B = "\<lparr> recipe_id = ''b'', title = ''Light Toast'', image_url = '''',
               macros = \<lparr> calories = Some 90, protein = Some 3, carbs = Some 16, fat = Some 1 \<rparr>,
               pregnancy_tags = [], recipe_description = None, ingredients = None \<rparr>"
  let ?C = "\<lparr> recipe_id = ''c'', title = ''Ginger Tea'', image_url = '''',
               macros = \<lparr> calories = Some 50, protein = Some 1, carbs = Some 10, fat = Some 0 \<rparr>,
               pregnancy_tags = [''Nausea Relief''], recipe_description = None,
               ingredients = None \<rparr>"
  let ?D = "\<lparr> recipe_id = ''d'', title = ''Ginger Crackers'', image_url = '''',
               macros = \<lparr> calories = Some 120, protein = Some 2, carbs = Some 20, fat = Some 3 \<rparr>,
               pregnancy_tags = [], recipe_description = None, ingredients = None \<rparr>"
  have sA: "scoreRecipeForContext ?A first_thing = 40"
    by (simp add: scoreRecipeForContext_sum points_eval)
  have sB: "scoreRecipeForContext ?B first_thing = 40"
    by (simp add: scoreRecipeForContext_sum points_eval)
  have sC: "scoreRecipeForContext ?C first_thing = 90"
    by (simp add: scoreRecipeForContext_sum points_eval)
  have ctx: "getContextForMealNumber 1 = first_thing"
    by (simp add: getContextForMealNumber_def)
  have out: "getSmartRecipesForMeal [?A, ?B, ?D, ?C] 1 {''d''} = [?C, ?A, ?B]"
    by (simp add: getSmartRecipesForMeal_def sortBy_def ctx sA sB sC)
  have "distinct [?A, ?B, ?D, ?C]"
    by simp
  then have dist: "distinct (getSmartRecipesForMeal [?A, ?B, ?D, ?C] 1 {''d''})"
    using getSmartRecipesForMeal_ranked[of "[?A, ?B, ?D, ?C]" 1 "{''d''}"] by blast
  have empty: "getSmartRecipesForMeal [] 1 {} = []"
    using getSmartRecipesForMeal_ranked[of "[]" 1 "{}"] by simp
  from sA sB sC out dist empty show ?thesis
    by (simp only: Let_def simp_thms)
qed

section \<open>The contributions of the score\<close>

text \<open>
  Claim C1.  \<open>scoreRecipeForContext\<close> is a sum of independent contributions.  Two of
  them are the keyword matches: 15 for every keyword of the context's list that occurs
  in the lower-cased title, and 10 for every pair of a tag and a keyword such that the
  lower-cased tag contains the lower-cased keyword, so that one tag that contains three
  keywords counts three times.  The other three contributions are the calorie fit, the
  purpose alignment and the context override.
\<close>

theorem score_keyword_contributions:
  "scoreRecipeForContext r c =
     15 * int (length (filter (\<lambda>k. str_includes (toLowerCase (title r)) k)
                         (keywords_cfg (EATING_CONTEXT_CONFIG c))))
     + 10 * int (length (filter (\<lambda>(t, k). str_includes (toLowerCase t) (toLowerCase k))
                           (List.product (pregnancy_tags r)
                              (keywords_cfg (EATING_CONTEXT_CONFIG c)))))
     + (calorieFitPoints r c + purposePoints r c + overridePoints r c)"
  by (simp add: scoreRecipeForContext_sum titleKeywordPoints_def tagKeywordPoints_def)

text \<open>A recipe whose single tag contains the three keywords \<open>light\<close>, \<open>dry\<close> and
  \<open>toast\<close> of \<open>first_thing\<close>: the tag contribution is 30.\<close>

theorem score_keyword_contributions_witness:
  "scoreRecipeForContext
     \<lparr> recipe_id = ''r1'', title = ''Plain Rusk'', image_url = '''',
       macros = \<lparr> calories = Some 120, protein = Some 3, carbs = Some 20, fat = Some 2 \<rparr>,
       pregnancy_tags = [''Light Dry Toast''], recipe_description = None,
       ingredients = None \<rparr> first_thing
   = 15 * 0 + 10 * 3 + (10 + 0 + 0)"
  using score_keyword_contributions [of
     "\<lparr> recipe_id = ''r1'', title = ''Plain Rusk'', image_url = '''',
       macros = \<lparr> calories = Some 120, protein = Some 3, carbs = Some 20, fat = Some 2 \<rparr>,
       pregnancy_tags = [''Light Dry Toast''], recipe_description = None,
       ingredients = None \<rparr>" first_thing]
  by (simp add: points_eval)

text \<open>
  Claim C5.  The calorie-fit contribution is 10 when the calories of the recipe (0 when
  the field is missing) are at most \<open>maxCalories\<close> of the context, it is \<open>- 15\<close> when they
  are strictly above \<open>maxCalories * 1.5\<close>, and it is 0 in between, the value
  \<open>maxCalories * 1.5\<close> itself included.
\<close>

theorem calorie_fit_contribution:
  "scoreRecipeForContext r c =
     titleKeywordPoints r c + tagKeywordPoints r c + purposePoints r c + overridePoints r c
     + (let calories = (case calories (macros r) of None \<Rightarrow> 0 | Some x \<Rightarrow> x);
            limit = maxCalories (EATING_CONTEXT_CONFIG c)
        in if calories \<le> limit then 10
           else if calories > limit * 1.5 then - 15
           else 0)"
  by (simp add: scoreRecipeForContext_sum calorieFitPoints_def caloriesOrZero_def)

text \<open>Against \<open>quick_bite\<close> (ceiling 250, so 375 is one and a half times the ceiling):
  250 and a missing value earn 10, 300 and 375 earn nothing, 376 costs 15.\<close>

theorem calorie_fit_contribution_witness:
  "(let R = (\<lambda>cal. \<lparr> recipe_id = ''r2'', title = ''Plain Rice'', image_url = '''',
                macros = \<lparr> calories = cal, protein = Some 4, carbs = Some 45, fat = Some 1 \<rparr>,
                pregnancy_tags = [], recipe_description = None, ingredients = None \<rparr>)
    in scoreRecipeForContext (R (Some 250)) quick_bite = 0 + 0 + 20 + 0 + 10
     \<and> scoreRecipeForContext (R None) quick_bite = 0 + 0 + 20 + 0 + 10
     \<and> scoreRecipeForContext (R (Some 300)) quick_bite = 0 + 0 + 20 + 0 + 0
     \<and> scoreRecipeForContext (R (Some 375)) quick_bite = 0 + 0 + 20 + 0 + 0
     \<and> scoreRecipeForContext (R (Some 376)) quick_bite = 0 + 0 + 20 + 0 + (- 15))"
  by (simp add: calorie_fit_contribution points_eval)

text \<open>
  Claim C6.  The purpose-alignment contribution is 20 for every purpose that is both a
  priority purpose of the context and a detected purpose of the recipe, without a cap:
  \<open>morning_fuel\<close> and \<open>midday_sustain\<close> list two priority purposes, and a recipe that
  has both earns 40.
\<close>

theorem purpose_alignment_contribution:
  "scoreRecipeForContext r c =
     titleKeywordPoints r c + tagKeywordPoints r c + calorieFitPoints r c + overridePoints r c
     + 20 * int (card (set (priorityPurposes (EATING_CONTEXT_CONFIG c)) \<inter> set (detectPurpose r)))
   \<and> ((c = morning_fuel \<or> c = midday_sustain)
        \<and> energy \<in> set (detectPurpose r) \<and> nutrient_dense \<in> set (detectPurpose r)
      \<longrightarrow> scoreRecipeForContext r c =
            titleKeywordPoints r c + tagKeywordPoints r c + calorieFitPoints r c
            + overridePoints r c + 40)"
proof -
  have two: "card ({energy, nutrient_dense} \<inter> S) = 2"
    if "energy \<in> S" "nutrient_dense \<in> S" for S
  proof -
    have "{energy, nutrient_dense} \<inter> S = {energy, nutrient_dense}"
      using that by auto
    then show ?thesis by simp
  qed
  show ?thesis
    by (auto simp: scoreRecipeForContext_sum purposePoints_def two insert_commute)
qed

theorem purpose_alignment_contribution_witness:
  "(let R = \<lparr> recipe_id = ''r3'', title = ''Lentil Stew'', image_url = '''',
                macros = \<lparr> calories = Some 350, protein = Some 22, carbs = Some 40, fat = Some 6 \<rparr>,
                pregnancy_tags = [''Iron Rich'', ''Protein''], recipe_description = None,
                ingredients = None \<rparr>
    in set (detectPurpose R) = {energy, nutrient_dense}
     \<and> scoreRecipeForContext R morning_fuel = 0 + 0 + 10 + 0 + 40
     \<and> scoreRecipeForContext R midday_sustain = 0 + 0 + 10 + 0 + 40
     \<and> scoreRecipeForContext R substantial = 0 + 0 + 10 + 0 + 20)"
  by (simp add: purpose_alignment_contribution points_eval)

text \<open>
  Claim C7.  The context overrides come on top of the other four contributions and only
  for two contexts.  For \<open>first_thing\<close>: 30 when the lower-cased title contains
  \<open>ginger\<close> or \<open>cracker\<close>, and independently \<open>- 25\<close> when the fat is above 15 or the
  calories are above 300; both can apply to one recipe.  For \<open>wind_down\<close>: 20 when the
  title contains \<open>milk\<close>, \<open>yogurt\<close> or \<open>cheese\<close>.  The other four contexts get no
  adjustment.
\<close>

theorem context_override_contribution:
  "scoreRecipeForContext r c =
     titleKeywordPoints r c + tagKeywordPoints r c + calorieFitPoints r c + purposePoints r c
     + (if c = first_thing then
          (if str_includes (toLowerCase (title r)) ''ginger''
              \<or> str_includes (toLowerCase (title r)) ''cracker'' then 30 else 0)
          + (if (case fat (macros r) of None \<Rightarrow> False | Some f \<Rightarrow> f > 15)
                \<or> (case calories (macros r) of None \<Rightarrow> 0 | Some x \<Rightarrow> x) > 300
             then - 25 else 0)
        else if c = wind_down then
          (if str_includes (toLowerCase (title r)) ''milk''
              \<or> str_includes (toLowerCase (title r)) ''yogurt''
              \<or> str_includes (toLowerCase (title r)) ''cheese'' then 20 else 0)
        else 0)"
  by (simp add: scoreRecipeForContext_sum overridePoints_def caloriesOrZero_def)

text \<open>One recipe earns the bonus and pays the penalty of \<open>first_thing\<close>, earns the
  bonus of \<open>wind_down\<close>, and gets nothing extra for \<open>quick_bite\<close>.\<close>

theorem context_override_contribution_witness:
  "(let R = \<lparr> recipe_id = ''r4'', title = ''Ginger Cheese Crackers'', image_url = '''',
                macros = \<lparr> calories = Some 150, protein = Some 5, carbs = Some 12, fat = Some 20 \<rparr>,
                pregnancy_tags = [], recipe_description = None, ingredients = None \<rparr>
    in scoreRecipeForContext R first_thing = 30 + 0 + 10 + 20 + (30 + (- 25))
     \<and> scoreRecipeForContext R wind_down = 15 + 0 + 10 + 0 + 20
     \<and> scoreRecipeForContext R quick_bite = 15 + 0 + 10 + 0 + 0)"
  by (simp add: context_override_contribution points_eval)

section \<open>The two scoring scenarios\<close>

text \<open>
  Claim C8.  The recipe titled \<open>Ginger Tea\<close>, tagged \<open>Nausea Relief\<close>, with 50 calories,
  1 g protein, 10 g carbohydrates and no fat, scores strictly more than 60 against
  \<open>first_thing\<close>.  (The score is 90: the title contains the keywords \<open>ginger\<close> and
  \<open>tea\<close>, 30; the tag contains no keyword; calorie fit 10; purpose alignment 20;
  override 30.)
\<close>

theorem ginger_tea_score:
  "scoreRecipeForContext
     \<lparr> recipe_id = i, title = ''Ginger Tea'', image_url = u,
       macros = \<lparr> calories = Some 50, protein = Some 1, carbs = Some 10, fat = Some 0 \<rparr>,
       pregnancy_tags = [''Nausea Relief''], recipe_description = d,
       ingredients = g \<rparr> first_thing = 90
   \<and> 60 < scoreRecipeForContext
     \<lparr> recipe_id = i, title = ''Ginger Tea'', image_url = u,
       macros = \<lparr> calories = Some 50, protein = Some 1, carbs = Some 10, fat = Some 0 \<rparr>,
       pregnancy_tags = [''Nausea Relief''], recipe_description = d,
       ingredients = g \<rparr> first_thing"
  by (simp add: scoreRecipeForContext_def detectPurpose_def toLowerCase_examples)

text \<open>
  Claim C9.  The recipe titled \<open>Grilled Salmon Steak\<close>, tagged \<open>Omega-3\<close>, with 650
  calories, 40 g protein, 5 g carbohydrates and 30 g fat, has a strictly negative score
  against \<open>first_thing\<close>.  (The score is \<open>- 25\<close>: \<open>steak\<close> contains the keyword \<open>tea\<close>,
  15; calorie overshoot \<open>- 15\<close>; override penalty \<open>- 25\<close>.)
\<close>

theorem salmon_steak_score:
  "scoreRecipeForContext
     \<lparr> recipe_id = i, title = ''Grilled Salmon Steak'', image_url = u,
       macros = \<lparr> calories = Some 650, protein = Some 40, carbs = Some 5, fat = Some 30 \<rparr>,
       pregnancy_tags = [''Omega-3''], recipe_description = d,
       ingredients = g \<rparr> first_thing = - 25
   \<and> scoreRecipeForContext
     \<lparr> recipe_id = i, title = ''Grilled Salmon Steak'', image_url = u,
       macros = \<lparr> calories = Some 650, protein = Some 40, carbs = Some 5, fat = Some 30 \<rparr>,
       pregnancy_tags = [''Omega-3''], recipe_description = d,
       ingredients = g \<rparr> first_thing < 0"
  by (simp add: scoreRecipeForContext_def detectPurpose_def toLowerCase_examples)

section \<open>What the score depends on\<close>

text \<open>
  Claim C10.  For every context, the score depends only on the title, the tags, the
  calories and the fat of the recipe: two recipes that agree on these four get the same
  score, whatever their ids, protein and carbohydrate values (and their other fields)
  are.
\<close>

theorem score_depends_only_on_four_fields:
  assumes "title r1 = title r2"
    and "pregnancy_tags r1 = pregnancy_tags r2"
    and "calories (macros r1) = calories (macros r2)"
    and "fat (macros r1) = fat (macros r2)"
  shows "scoreRecipeForContext r1 c = scoreRecipeForContext r2 c"
  by (simp only: scoreRecipeForContext_def detectPurpose_def assms)

theorem score_depends_only_on_four_fields_witness:
  "scoreRecipeForContext
     \<lparr> recipe_id = ''a'', title = ''Ginger Tea'', image_url = ''x'',
       macros = \<lparr> calories = Some 50, protein = Some 1, carbs = Some 10, fat = Some 0 \<rparr>,
       pregnancy_tags = [''Nausea Relief''], recipe_description = None,
       ingredients = None \<rparr> first_thing
   = scoreRecipeForContext
     \<lparr> recipe_id = ''b'', title = ''Ginger Tea'', image_url = ''y'',
       macros = \<lparr> calories = Some 50, protein = Some 77, carbs = None, fat = Some 0 \<rparr>,
       pregnancy_tags = [''Nausea Relief''], recipe_description = Some ''warm'',
       ingredients = Some [''ginger''] \<rparr> first_thing"
  by (rule score_depends_only_on_four_fields) simp_all

end
